theory Spec2Isabelle
  imports Complex_Main "HOL-Library.Sublist" "HOL-Library.Multiset"
begin

section \<open>The student performance dashboard (student.py)\<close>

text \<open>
  The program is one Streamlit script. Each interaction of the user runs it from top to
  bottom: the table \<open>df\<close> is loaded, the sidebar widgets return the filter
  values, \<open>filtered_df\<close> is computed by a chain of boolean-mask selections, and the
  key figures, the charts and the three quick actions are rendered. The embedding keeps
  the script's names. The table is a list of rows in row order; a boolean-mask selection
  \<open>t[mask]\<close> keeps the rows whose mask entry is true, in their order, which is
  \<open>filter\<close> on the list.
\<close>

subsection \<open>Rows and widget values\<close>

text \<open>
  One row of the table, with the columns of lines 16 to 21. Marks and attendance are
  whole numbers, as in the built-in table; text columns hold plain strings.
\<close>

record student =
  Name :: string
  Course :: string
  City :: string
  Gender :: string
  Marks :: int
  Attendance :: int

text \<open>The values returned by the four sidebar widgets (lines 30 to 49).\<close>

record criteria =
  course_filter :: string
  city_filter :: "string list"
  min_marks :: int
  gender_filter :: string

text \<open>The remaining inputs of one run: the search box and the two buttons.\<close>

record widgets = criteria +
  search_name :: string
  top_button :: bool
  all_button :: bool

subsection \<open>The built-in table (lines 15 to 23)\<close>

definition data :: "student list" where
  "data =
    [\<lparr>Name = ''Alice'', Course = ''Math'', City = ''New York'', Gender = ''Female'', Marks = 95, Attendance = 98\<rparr>,
     \<lparr>Name = ''Bob'', Course = ''Science'', City = ''Los Angeles'', Gender = ''Male'', Marks = 82, Attendance = 85\<rparr>,
     \<lparr>Name = ''Charlie'', Course = ''Math'', City = ''New York'', Gender = ''Male'', Marks = 78, Attendance = 76\<rparr>,
     \<lparr>Name = ''David'', Course = ''English'', City = ''Chicago'', Gender = ''Male'', Marks = 91, Attendance = 92\<rparr>,
     \<lparr>Name = ''Eve'', Course = ''Science'', City = ''Los Angeles'', Gender = ''Female'', Marks = 65, Attendance = 60\<rparr>,
     \<lparr>Name = ''Fiona'', Course = ''Math'', City = ''New York'', Gender = ''Female'', Marks = 88, Attendance = 90\<rparr>,
     \<lparr>Name = ''George'', Course = ''English'', City = ''Chicago'', Gender = ''Male'', Marks = 72, Attendance = 75\<rparr>,
     \<lparr>Name = ''Hannah'', Course = ''Science'', City = ''Los Angeles'', Gender = ''Female'', Marks = 98, Attendance = 99\<rparr>,
     \<lparr>Name = ''Ian'', Course = ''Math'', City = ''New York'', Gender = ''Male'', Marks = 55, Attendance = 50\<rparr>,
     \<lparr>Name = ''Jasmine'', Course = ''English'', City = ''Chicago'', Gender = ''Female'', Marks = 85, Attendance = 88\<rparr>]"

subsection \<open>The options of the sidebar (lines 30 to 38)\<close>

text \<open>
  \<open>Series.unique()\<close> lists the distinct values of a column in the order of their
  first occurrence.
\<close>

definition unique :: "'a list \<Rightarrow> 'a list" where
  "unique xs = rev (remdups (rev xs))"

definition course_options :: "student list \<Rightarrow> string list" where
  "course_options df = [''All''] @ unique (map Course df)"

definition city_options :: "student list \<Rightarrow> string list" where
  "city_options df = [''All''] @ unique (map City df)"

subsection \<open>The filter chain (lines 51 to 57)\<close>

text \<open>
  The four selections run one after the other, each on the result of the one before;
  the first and the last are skipped when their widget holds \<open>All\<close>. The city
  selection \<open>isin(city_filter)\<close> and the marks selection are never skipped.
\<close>

definition filtered_df :: "student list \<Rightarrow> 'a criteria_scheme \<Rightarrow> student list" where
  "filtered_df df w =
    (let f0 = df;
         f1 = (if course_filter w \<noteq> ''All''
               then filter (\<lambda>r. Course r = course_filter w) f0 else f0);
         f2 = filter (\<lambda>r. City r \<in> set (city_filter w)) f1;
         f3 = filter (\<lambda>r. min_marks w \<le> Marks r) f2
     in if gender_filter w \<noteq> ''All''
        then filter (\<lambda>r. Gender r = gender_filter w) f3 else f3)"

subsection \<open>The key figures (lines 66 to 68)\<close>

text \<open>
  \<open>Series.mean()\<close> divides the sum of a column by the number of its rows and is
  NaN on a column with no rows; \<open>None\<close> stands for that NaN. The means are taken
  over the rationals. The script computes them in binary floating point: the mean is
  then the representable number nearest to the rational mean, equal to it wherever that
  is representable (as 79 and 78.5 are), and its rounding to two decimals is the
  rational one unless the rational mean lies within that error of a tie between two
  hundredths.
\<close>

definition mean :: "int list \<Rightarrow> rat option" where
  "mean xs = (if xs = [] then None else Some (of_int (sum_list xs) / of_int (int (length xs))))"

text \<open>
  Python's \<open>round(x, 2)\<close>: the nearest multiple of one hundredth, a tie going to
  the even neighbour.
\<close>

definition round_half_even :: "rat \<Rightarrow> int" where
  "round_half_even q =
    (let f = \<lfloor>q\<rfloor>; d = q - of_int f
     in if d < 1 / 2 then f else if 1 / 2 < d then f + 1 else if even f then f else f + 1)"

definition py_round2 :: "rat \<Rightarrow> rat" where
  "py_round2 x = of_int (round_half_even (x * 100)) / 100"

definition avg_marks :: "student list \<Rightarrow> rat option" where
  "avg_marks fdf = map_option py_round2 (mean (map Marks fdf))"

definition avg_attendance :: "student list \<Rightarrow> rat option" where
  "avg_attendance fdf = map_option py_round2 (mean (map Attendance fdf))"

definition total_students :: "student list \<Rightarrow> nat" where
  "total_students fdf = length fdf"

subsection \<open>What a run renders\<close>

text \<open>
  The elements a run can put on the page, fixed texts and layout left out. The three
  performance messages are those of lines 80, 82 and 84.
\<close>

datatype element =
    Warning_no_data
  | Metric_total nat
  | Metric_avg_marks "rat option"
  | Metric_avg_attendance "rat option"
  | Success_excellent
  | Info_good
  | Warning_needs_improvement
  | Bar_chart "(string \<times> int) list"
  | Line_chart "(string \<times> int) list"
  | Hist "int list"
  | Dataframe_filtered "student list"
  | Table_result "student list"
  | Error_not_found
  | Success_top
  | Dataframe_top "student list"
  | Dataframe_all "student list"

subsection \<open>The performance message (lines 78 to 84)\<close>

text \<open>A comparison with NaN is false, whichever way it is asked.\<close>

definition gt :: "rat option \<Rightarrow> rat \<Rightarrow> bool" where
  "gt a b = (case a of None \<Rightarrow> False | Some x \<Rightarrow> b < x)"

definition ge :: "rat option \<Rightarrow> rat \<Rightarrow> bool" where
  "ge a b = (case a of None \<Rightarrow> False | Some x \<Rightarrow> b \<le> x)"

definition performance :: "rat option \<Rightarrow> element" where
  "performance avg =
    (if gt avg 85 then Success_excellent
     else if ge avg 70 then Info_good
     else Warning_needs_improvement)"

subsection \<open>Sorting by a column, largest first (lines 95, 99 and 132)\<close>

text \<open>
  \<open>sort_values(ascending=False)\<close> reverses the rows, sorts them by the key in
  ascending order and reverses the result. The ascending sort here is the library's
  insertion sort, which keeps rows of equal key in their order; pandas' default sort
  does not promise an order among rows of equal key, and no property below depends on
  that order.
\<close>

definition sort_values_desc :: "('a \<Rightarrow> int) \<Rightarrow> 'a list \<Rightarrow> 'a list" where
  "sort_values_desc key xs = rev (sort_key key (rev xs))"

subsection \<open>The search box (lines 121 to 127)\<close>

text \<open>
  \<open>str.contains(search_name, case=False, na=False)\<close> is called without
  \<open>regex=False\<close>, so pandas compiles the text of the search box as a regular
  expression and searches each name for a match, ignoring case. The embedding covers
  the patterns built from ordinary characters and the dot: an ordinary character matches
  itself in either case, the dot matches every character but the line feed. A pattern
  holding any other special character is outside the embedding (\<open>None\<close>); Python
  either matches it by the rules of regular expressions or raises \<open>re.error\<close>.
  Characters are ASCII.
\<close>

definition to_lower :: "char \<Rightarrow> char" where
  "to_lower c =
    (case map_of (zip ''ABCDEFGHIJKLMNOPQRSTUVWXYZ'' ''abcdefghijklmnopqrstuvwxyz'') c of
       None \<Rightarrow> c
     | Some l \<Rightarrow> l)"

definition special :: "char list" where
  "special =
    [CHR ''.'', CHR ''^'', CHR ''$'', CHR ''*'', CHR ''+'', CHR ''?'', CHR ''{'', CHR ''}'',
     CHR ''['', CHR '']'', CHR 0x5C, CHR ''|'', CHR ''('', CHR '')'']"

datatype atom = Lit char | Dot

fun re_compile :: "string \<Rightarrow> atom list option" where
  "re_compile [] = Some []"
| "re_compile (c # cs) =
    (if c = CHR ''.'' then map_option (Cons Dot) (re_compile cs)
     else if c \<in> set special then None
     else map_option (Cons (Lit c)) (re_compile cs))"

fun atom_matches :: "atom \<Rightarrow> char \<Rightarrow> bool" where
  "atom_matches (Lit c) d = (to_lower c = to_lower d)"
| "atom_matches Dot d = (d \<noteq> CHR 0x0A)"

fun match_here :: "atom list \<Rightarrow> string \<Rightarrow> bool" where
  "match_here [] s = True"
| "match_here (a # as) [] = False"
| "match_here (a # as) (d # ds) = (atom_matches a d \<and> match_here as ds)"

fun re_search :: "atom list \<Rightarrow> string \<Rightarrow> bool" where
  "re_search p [] = match_here p []"
| "re_search p (d # ds) = (match_here p (d # ds) \<or> re_search p ds)"

text \<open>The rows selected at line 123, from the whole table \<open>df\<close>.\<close>

definition search_result :: "student list \<Rightarrow> string \<Rightarrow> student list option" where
  "search_result df q =
    (case re_compile q of
       None \<Rightarrow> None
     | Some p \<Rightarrow> Some (filter (\<lambda>r. re_search p (Name r)) df))"

text \<open>The block under the search box: nothing is computed for an empty text.\<close>

definition search_block :: "student list \<Rightarrow> string \<Rightarrow> element list option" where
  "search_block df q =
    (if q \<noteq> [] then
       (case search_result df q of
          None \<Rightarrow> None
        | Some result \<Rightarrow>
            if result \<noteq> [] then Some [Table_result result] else Some [Error_not_found])
     else Some [])"

text \<open>
  The search as the spec words it (search_by_name): a case-insensitive substring match
  on the name, an empty query giving an empty result. It follows the spec's sentence, not
  the script, and is what the script's search is compared with.
\<close>

definition search_by_name_spec :: "student list \<Rightarrow> string \<Rightarrow> student list" where
  "search_by_name_spec records query =
    (if query = [] then []
     else filter (\<lambda>r. sublist (map to_lower query) (map to_lower (Name r))) records)"

subsection \<open>The two buttons (lines 129 to 139)\<close>

definition top_students :: "student list \<Rightarrow> student list" where
  "top_students df = sort_values_desc Marks (filter (\<lambda>r. 90 < Marks r) df)"

definition top_block :: "student list \<Rightarrow> bool \<Rightarrow> element list" where
  "top_block df pressed =
    (if pressed then [Success_top, Dataframe_top (top_students df)] else [])"

definition all_block :: "student list \<Rightarrow> bool \<Rightarrow> element list" where
  "all_block df pressed = (if pressed then [Dataframe_all df] else [])"

subsection \<open>One run of the script (lines 51 to 139)\<close>

text \<open>
  A run ends in one of three ways: \<open>st.stop()\<close> at line 61 ends it after the
  warning; it reaches the end of the script; or the search pattern is outside the
  embedding, in which case the elements rendered before the search box are kept.
\<close>

datatype outcome =
    Stopped "element list"
  | Completed "element list"
  | Unmodelled_pattern "element list"

definition kpi_block :: "student list \<Rightarrow> element list" where
  "kpi_block fdf =
    [Metric_total (total_students fdf),
     Metric_avg_marks (avg_marks fdf),
     Metric_avg_attendance (avg_attendance fdf),
     performance (avg_marks fdf)]"

definition chart_block :: "student list \<Rightarrow> element list" where
  "chart_block fdf =
    [Bar_chart (sort_values_desc snd (map (\<lambda>r. (Name r, Marks r)) fdf)),
     Line_chart (sort_values_desc snd (map (\<lambda>r. (Name r, Attendance r)) fdf)),
     Hist (map Marks fdf),
     Dataframe_filtered fdf]"

definition run :: "student list \<Rightarrow> widgets \<Rightarrow> outcome" where
  "run df w =
    (let fdf = filtered_df df w in
     if fdf = [] then Stopped [Warning_no_data]
     else
       (let shown = kpi_block fdf @ chart_block fdf in
        case search_block df (search_name w) of
          None \<Rightarrow> Unmodelled_pattern shown
        | Some found \<Rightarrow>
            Completed (shown @ found @ top_block df (top_button w) @ all_block df (all_button w))))"

fun rendered :: "outcome \<Rightarrow> element list" where
  "rendered (Stopped es) = es"
| "rendered (Completed es) = es"
| "rendered (Unmodelled_pattern es) = es"

text \<open>The elements of the quick actions: what lines 119 to 139 can render.\<close>

fun quick_action :: "element \<Rightarrow> bool" where
  "quick_action (Table_result rs) = True"
| "quick_action Error_not_found = True"
| "quick_action Success_top = True"
| "quick_action (Dataframe_top rs) = True"
| "quick_action (Dataframe_all rs) = True"
| "quick_action e = False"

section \<open>Properties of the filter chain\<close>

text \<open>
  C1. The filter chain (the spec's apply_filters) returns exactly the rows that satisfy
  all four conditions at once: the course widget holds All or equals the row's course,
  the row's city is among the selected cities, the row's marks are at least the minimum
  (the bound included), and the gender widget holds All or equals the row's gender. The
  rows come in their order in the table. With no city selected the result is empty.
\<close>

theorem filtered_df_conjunction:
  "filtered_df df w =
     filter (\<lambda>r. (course_filter w = ''All'' \<or> Course r = course_filter w)
                \<and> City r \<in> set (city_filter w)
                \<and> min_marks w \<le> Marks r
                \<and> (gender_filter w = ''All'' \<or> Gender r = gender_filter w)) df
   \<and> filtered_df df (w\<lparr>city_filter := []\<rparr>) = []"
proof
  show "filtered_df df w =
     filter (\<lambda>r. (course_filter w = ''All'' \<or> Course r = course_filter w)
                \<and> City r \<in> set (city_filter w)
                \<and> min_marks w \<le> Marks r
                \<and> (gender_filter w = ''All'' \<or> Gender r = gender_filter w)) df"
    unfolding filtered_df_def Let_def
    by (cases "course_filter w = ''All''"; cases "gender_filter w = ''All''")
       (simp_all add: conj_commute conj_left_commute cong: conj_cong)
next
  show "filtered_df df (w\<lparr>city_filter := []\<rparr>) = []"
    unfolding filtered_df_def Let_def by simp
qed

text \<open>
  C8. The rows returned by the filter chain form a subsequence of the table: each one
  is a row of the table, and they keep the order they have there.
\<close>

theorem filtered_df_subseq:
  "subseq (filtered_df df w) df \<and> set (filtered_df df w) \<subseteq> set df"
proof -
  have "subseq (filtered_df df w) df"
    unfolding filtered_df_def Let_def
    by (auto intro: subseq_order.trans[OF subseq_filter_left])
  moreover from this have "set (filtered_df df w) \<subseteq> set df"
    by (auto dest: list_emb_set)
  ultimately show ?thesis by simp
qed

text \<open>
  C10. The entry \<open>All\<close> of the city multiselect is an option like any other and is
  compared with the city column as it stands: on a table with no row whose city is
  \<open>All\<close>, selecting only \<open>All\<close> leaves no row, whatever the other three widgets
  hold.
\<close>

theorem all_city_is_literal:
  assumes "\<forall>r\<in>set df. City r \<noteq> ''All''" and "city_filter w = [''All'']"
  shows "''All'' \<in> set (city_options df) \<and> filtered_df df w = []"
proof
  show "''All'' \<in> set (city_options df)"
    by (simp add: city_options_def)
  have "filter (\<lambda>r. City r \<in> set (city_filter w)) xs = []" if "set xs \<subseteq> set df" for xs
    using that assms by (auto simp: filter_empty_conv)
  then show "filtered_df df w = []"
    unfolding filtered_df_def Let_def by (auto simp: filter_empty_conv)
qed

theorem all_city_is_literal_witness:
  "list_all (\<lambda>r. City r \<noteq> ''All'') data
   \<and> ''All'' \<in> set (city_options data)
   \<and> filtered_df data \<lparr>course_filter = ''All'', city_filter = [''All''], min_marks = 0,
        gender_filter = ''All''\<rparr> = []"
proof -
  have h: "\<forall>r\<in>set data. City r \<noteq> ''All''"
    by (simp add: data_def)
  then have "list_all (\<lambda>r. City r \<noteq> ''All'') data"
    by (simp add: list_all_iff)
  with all_city_is_literal[OF h, of "\<lparr>course_filter = ''All'', city_filter = [''All''],
      min_marks = 0, gender_filter = ''All''\<rparr>"]
  show ?thesis by simp
qed

section \<open>The key figures and the performance message\<close>

lemma avg_marks_Some: "fdf \<noteq> [] \<Longrightarrow> \<exists>a. avg_marks fdf = Some a"
  by (simp add: avg_marks_def mean_def)

lemma avg_attendance_Some: "fdf \<noteq> [] \<Longrightarrow> \<exists>a. avg_attendance fdf = Some a"
  by (simp add: avg_attendance_def mean_def)

lemma avg_marks_of_rows:
  "map (\<lambda>r. (Name r, Marks r)) fdf = rows
    \<Longrightarrow> avg_marks fdf = map_option py_round2 (mean (map snd rows))"
  by (auto simp: avg_marks_def comp_def)

lemma performance_Some:
  "(performance (Some a) = Success_excellent \<longleftrightarrow> 85 < a)
   \<and> (performance (Some a) = Info_good \<longleftrightarrow> 70 \<le> a \<and> a \<le> 85)
   \<and> (performance (Some a) = Warning_needs_improvement \<longleftrightarrow> a < 70)"
  by (auto simp: performance_def gt_def ge_def)

text \<open>
  C5. For a non-empty selection the average marks are a number \<open>a\<close> (not NaN), and
  the message is the excellent one exactly when \<open>85 < a\<close>, the good one exactly when
  \<open>70 \<le> a \<le> 85\<close>, and the needs-improvement one exactly when \<open>a < 70\<close>: the
  average 70 is good, the average 85 is good and not excellent.
\<close>

theorem performance_boundaries:
  assumes "fdf \<noteq> []"
  shows "\<exists>a. avg_marks fdf = Some a
     \<and> (performance (avg_marks fdf) = Success_excellent \<longleftrightarrow> 85 < a)
     \<and> (performance (avg_marks fdf) = Info_good \<longleftrightarrow> 70 \<le> a \<and> a \<le> 85)
     \<and> (performance (avg_marks fdf) = Warning_needs_improvement \<longleftrightarrow> a < 70)"
proof -
  from assms obtain a where a: "avg_marks fdf = Some a"
    using avg_marks_Some by blast
  show ?thesis
    unfolding a using performance_Some[of a] by blast
qed

theorem performance_boundaries_witness:
  "data \<noteq> []
   \<and> (\<exists>a. avg_marks data = Some a
     \<and> (performance (avg_marks data) = Success_excellent \<longleftrightarrow> 85 < a)
     \<and> (performance (avg_marks data) = Info_good \<longleftrightarrow> 70 \<le> a \<and> a \<le> 85)
     \<and> (performance (avg_marks data) = Warning_needs_improvement \<longleftrightarrow> a < 70))"
proof -
  have h: "data \<noteq> []" by (simp add: data_def)
  from performance_boundaries[OF h] h show ?thesis by blast
qed

section \<open>The scenarios on the built-in table\<close>

lemma rows_a:
  "map (\<lambda>r. (Name r, Marks r))
     (filtered_df data \<lparr>course_filter = ''Math'', city_filter = [''New York''], min_marks = 0,
        gender_filter = ''All'', \<dots> = m\<rparr>)
   = [(''Alice'', 95), (''Charlie'', 78), (''Fiona'', 88), (''Ian'', 55)]"
  by (simp add: filtered_df_def data_def)

lemma rows_b:
  assumes "{''New York'', ''Los Angeles'', ''Chicago''} \<subseteq> set cs"
  shows "map (\<lambda>r. (Name r, Marks r))
           (filtered_df data \<lparr>course_filter = ''All'', city_filter = cs, min_marks = 90,
              gender_filter = ''All'', \<dots> = m\<rparr>)
         = [(''Alice'', 95), (''David'', 91), (''Hannah'', 98)]"
  using assms by (simp add: filtered_df_def data_def)

lemma round_a: "map_option py_round2 (mean [95, 78, 88, 55]) = Some 79"
  by code_simp

lemma round_b: "map_option py_round2 (mean [95, 91, 98]) = Some (9467 / 100)"
  by code_simp

lemma avg_a:
  "avg_marks (filtered_df data \<lparr>course_filter = ''Math'', city_filter = [''New York''],
      min_marks = 0, gender_filter = ''All'', \<dots> = m\<rparr>) = Some 79"
  using avg_marks_of_rows[OF rows_a] round_a by simp

lemma avg_b:
  assumes "{''New York'', ''Los Angeles'', ''Chicago''} \<subseteq> set cs"
  shows "avg_marks (filtered_df data \<lparr>course_filter = ''All'', city_filter = cs,
      min_marks = 90, gender_filter = ''All'', \<dots> = m\<rparr>) = Some (9467 / 100)"
  using avg_marks_of_rows[OF rows_b[OF assms]] round_b by simp

text \<open>
  C2, as the claim states it, fails: on the built-in table the course Math with the city
  New York selects four rows, Fiona (88) among them, so the names are not Alice, Charlie
  and Ian alone and the average is not 76.
\<close>

theorem scenario_a_counterexample:
  "set (map Name (filtered_df data
       \<lparr>course_filter = ''Math'', city_filter = [''New York''], min_marks = 0,
          gender_filter = ''All''\<rparr>))
     \<noteq> {''Alice'', ''Charlie'', ''Ian''}
   \<and> avg_marks (filtered_df data
       \<lparr>course_filter = ''Math'', city_filter = [''New York''], min_marks = 0,
          gender_filter = ''All''\<rparr>)
     \<noteq> Some 76"
proof
  let ?fdf = "filtered_df data \<lparr>course_filter = ''Math'', city_filter = [''New York''],
    min_marks = 0, gender_filter = ''All''\<rparr>"
  have "map Name ?fdf = map fst (map (\<lambda>r. (Name r, Marks r)) ?fdf)"
    by (simp add: comp_def)
  then have "''Fiona'' \<in> set (map Name ?fdf)"
    unfolding rows_a by simp
  moreover have "''Fiona'' \<notin> {''Alice'', ''Charlie'', ''Ian''}"
    by simp
  ultimately show "set (map Name ?fdf) \<noteq> {''Alice'', ''Charlie'', ''Ian''}"
    by metis
  show "avg_marks ?fdf \<noteq> Some 76"
    unfolding avg_a by simp
qed

text \<open>
  C2, amended. On the built-in table, the course Math with the city New York, minimum
  marks 0 and gender All selects the four rows Alice (95), Charlie (78), Fiona (88) and
  Ian (55), in this order; the average marks are 79.0 and the message is the good one.
\<close>

theorem scenario_a:
  "map (\<lambda>r. (Name r, Marks r))
     (filtered_df data \<lparr>course_filter = ''Math'', city_filter = [''New York''], min_marks = 0,
        gender_filter = ''All''\<rparr>)
     = [(''Alice'', 95), (''Charlie'', 78), (''Fiona'', 88), (''Ian'', 55)]
   \<and> avg_marks (filtered_df data \<lparr>course_filter = ''Math'', city_filter = [''New York''],
        min_marks = 0, gender_filter = ''All''\<rparr>) = Some 79
   \<and> performance (avg_marks (filtered_df data \<lparr>course_filter = ''Math'',
        city_filter = [''New York''], min_marks = 0, gender_filter = ''All''\<rparr>)) = Info_good"
proof (intro conjI)
  show "map (\<lambda>r. (Name r, Marks r))
     (filtered_df data \<lparr>course_filter = ''Math'', city_filter = [''New York''], min_marks = 0,
        gender_filter = ''All''\<rparr>)
     = [(''Alice'', 95), (''Charlie'', 78), (''Fiona'', 88), (''Ian'', 55)]"
    by (rule rows_a)
  show "avg_marks (filtered_df data \<lparr>course_filter = ''Math'', city_filter = [''New York''],
        min_marks = 0, gender_filter = ''All''\<rparr>) = Some 79"
    by (rule avg_a)
  show "performance (avg_marks (filtered_df data \<lparr>course_filter = ''Math'',
        city_filter = [''New York''], min_marks = 0, gender_filter = ''All''\<rparr>)) = Info_good"
    unfolding avg_a by (simp add: performance_def gt_def ge_def)
qed

text \<open>
  C3, as the claim states it, fails: with every city of the built-in table selected and
  minimum marks 90, David (91) is selected besides Alice and Hannah, and the average is
  not 96.5.
\<close>

theorem scenario_b_counterexample:
  "set (map Name (filtered_df data
       \<lparr>course_filter = ''All'', city_filter = [''New York'', ''Los Angeles'', ''Chicago''],
          min_marks = 90, gender_filter = ''All''\<rparr>))
     \<noteq> {''Alice'', ''Hannah''}
   \<and> avg_marks (filtered_df data
       \<lparr>course_filter = ''All'', city_filter = [''New York'', ''Los Angeles'', ''Chicago''],
          min_marks = 90, gender_filter = ''All''\<rparr>)
     \<noteq> Some (965 / 10)"
proof
  let ?fdf = "filtered_df data \<lparr>course_filter = ''All'',
    city_filter = [''New York'', ''Los Angeles'', ''Chicago''], min_marks = 90,
    gender_filter = ''All''\<rparr>"
  have c: "{''New York'', ''Los Angeles'', ''Chicago''}
      \<subseteq> set [''New York'', ''Los Angeles'', ''Chicago'']"
    by simp
  have "map Name ?fdf = map fst (map (\<lambda>r. (Name r, Marks r)) ?fdf)"
    by (simp add: comp_def)
  then have "''David'' \<in> set (map Name ?fdf)"
    unfolding rows_b[OF c] by simp
  moreover have "''David'' \<notin> {''Alice'', ''Hannah''}"
    by simp
  ultimately show "set (map Name ?fdf) \<noteq> {''Alice'', ''Hannah''}"
    by metis
  show "avg_marks ?fdf \<noteq> Some (965 / 10)"
    unfolding avg_b[OF c] by simp
qed

text \<open>
  C3, amended. On the built-in table, with course All, gender All, minimum marks 90 and a
  city selection that holds every city of the table, the rows selected are Alice (95),
  David (91) and Hannah (98), in this order; the average marks are 94.67 and the message
  is the excellent one.
\<close>

theorem scenario_b:
  assumes "{''New York'', ''Los Angeles'', ''Chicago''} \<subseteq> set cs"
  shows "map (\<lambda>r. (Name r, Marks r))
       (filtered_df data \<lparr>course_filter = ''All'', city_filter = cs, min_marks = 90,
          gender_filter = ''All''\<rparr>)
       = [(''Alice'', 95), (''David'', 91), (''Hannah'', 98)]
     \<and> avg_marks (filtered_df data \<lparr>course_filter = ''All'', city_filter = cs,
          min_marks = 90, gender_filter = ''All''\<rparr>) = Some (9467 / 100)
     \<and> performance (avg_marks (filtered_df data \<lparr>course_filter = ''All'',
          city_filter = cs, min_marks = 90, gender_filter = ''All''\<rparr>)) = Success_excellent"
proof (intro conjI)
  show "map (\<lambda>r. (Name r, Marks r))
       (filtered_df data \<lparr>course_filter = ''All'', city_filter = cs, min_marks = 90,
          gender_filter = ''All''\<rparr>)
       = [(''Alice'', 95), (''David'', 91), (''Hannah'', 98)]"
    using assms by (rule rows_b)
  show "avg_marks (filtered_df data \<lparr>course_filter = ''All'', city_filter = cs,
          min_marks = 90, gender_filter = ''All''\<rparr>) = Some (9467 / 100)"
    using assms by (rule avg_b)
  show "performance (avg_marks (filtered_df data \<lparr>course_filter = ''All'',
          city_filter = cs, min_marks = 90, gender_filter = ''All''\<rparr>)) = Success_excellent"
    unfolding avg_b[OF assms] by (simp add: performance_def gt_def ge_def)
qed

theorem scenario_b_witness:
  "{''New York'', ''Los Angeles'', ''Chicago''}
      \<subseteq> set [''All'', ''New York'', ''Los Angeles'', ''Chicago'']
   \<and> map (\<lambda>r. (Name r, Marks r))
       (filtered_df data \<lparr>course_filter = ''All'',
          city_filter = [''All'', ''New York'', ''Los Angeles'', ''Chicago''], min_marks = 90,
          gender_filter = ''All''\<rparr>)
       = [(''Alice'', 95), (''David'', 91), (''Hannah'', 98)]
   \<and> avg_marks (filtered_df data \<lparr>course_filter = ''All'',
          city_filter = [''All'', ''New York'', ''Los Angeles'', ''Chicago''], min_marks = 90,
          gender_filter = ''All''\<rparr>) = Some (9467 / 100)"
proof -
  have h: "{''New York'', ''Los Angeles'', ''Chicago''}
      \<subseteq> set [''All'', ''New York'', ''Los Angeles'', ''Chicago'']"
    by simp
  from scenario_b[OF h] h show ?thesis by blast
qed

section \<open>The run as a whole\<close>

lemma run_empty: "filtered_df df w = [] \<Longrightarrow> run df w = Stopped [Warning_no_data]"
  by (simp add: run_def)

lemma filtered_df_more:
  "filtered_df df (w\<lparr>search_name := q, top_button := t, all_button := a\<rparr>) = filtered_df df w"
  by (simp add: filtered_df_def Let_def)

lemma rendered_marks:
  assumes "Metric_avg_marks a \<in> set (rendered (run df w))"
  shows "filtered_df df w \<noteq> [] \<and> a = avg_marks (filtered_df df w)"
  using assms
  by (auto simp: run_def Let_def kpi_block_def chart_block_def search_block_def
      top_block_def all_block_def performance_def split: if_splits option.splits)

lemma rendered_attendance:
  assumes "Metric_avg_attendance a \<in> set (rendered (run df w))"
  shows "filtered_df df w \<noteq> [] \<and> a = avg_attendance (filtered_df df w)"
  using assms
  by (auto simp: run_def Let_def kpi_block_def chart_block_def search_block_def
      top_block_def all_block_def performance_def split: if_splits option.splits)

lemma rendered_kpis:
  assumes "filtered_df df w \<noteq> []"
  shows "Metric_avg_marks (avg_marks (filtered_df df w)) \<in> set (rendered (run df w))"
  using assms
  by (auto simp: run_def Let_def kpi_block_def split: option.splits)

lemma rendered_kpis_attendance:
  assumes "filtered_df df w \<noteq> []"
  shows "Metric_avg_attendance (avg_attendance (filtered_df df w)) \<in> set (rendered (run df w))"
  using assms
  by (auto simp: run_def Let_def kpi_block_def split: option.splits)

lemma round_attendance_a: "map_option py_round2 (mean [98, 76, 90, 50]) = Some (157 / 2)"
  by code_simp

lemma avg_attendance_a:
  "avg_attendance (filtered_df data \<lparr>course_filter = ''Math'', city_filter = [''New York''],
      min_marks = 0, gender_filter = ''All'', \<dots> = m\<rparr>) = Some (157 / 2)"
proof -
  have "map Attendance (filtered_df data \<lparr>course_filter = ''Math'',
      city_filter = [''New York''], min_marks = 0, gender_filter = ''All'', \<dots> = m\<rparr>)
      = [98, 76, 90, 50]"
    by (simp add: filtered_df_def data_def)
  then show ?thesis
    unfolding avg_attendance_def using round_attendance_a by simp
qed

lemma run_completed_top:
  "run df w = Completed es \<Longrightarrow> top_button w \<Longrightarrow> Dataframe_top (top_students df) \<in> set es"
  by (auto simp: run_def Let_def top_block_def split: if_splits option.splits)

text \<open>
  C4. When the filter chain leaves no row, the run renders the no-data warning and stops
  there (the spec's EmptyFilterResult). The averages are computed only after that test:
  whenever a run shows an average, the selection it was taken over is non-empty and the
  average is a number, not the NaN of a mean over no rows. With course All, no city
  selected, minimum marks 0 and gender All the selection is empty and the run stops
  with the warning.
\<close>

theorem empty_filter_stops:
  "(filtered_df df w = [] \<longrightarrow> run df w = Stopped [Warning_no_data])
   \<and> (\<forall>a. Metric_avg_marks a \<in> set (rendered (run df w))
          \<longrightarrow> filtered_df df w \<noteq> [] \<and> a \<noteq> None)
   \<and> (\<forall>a. Metric_avg_attendance a \<in> set (rendered (run df w))
          \<longrightarrow> filtered_df df w \<noteq> [] \<and> a \<noteq> None)
   \<and> filtered_df df (w\<lparr>course_filter := ''All'', city_filter := [], min_marks := 0,
          gender_filter := ''All''\<rparr>) = []
   \<and> run df (w\<lparr>course_filter := ''All'', city_filter := [], min_marks := 0,
          gender_filter := ''All''\<rparr>) = Stopped [Warning_no_data]"
proof (intro conjI allI impI)
  show "run df w = Stopped [Warning_no_data]" if "filtered_df df w = []"
    using that by (rule run_empty)
next
  fix a assume "Metric_avg_marks a \<in> set (rendered (run df w))"
  then have *: "filtered_df df w \<noteq> []" "a = avg_marks (filtered_df df w)"
    using rendered_marks by blast+
  show "filtered_df df w \<noteq> []" by (rule *)
  show "a \<noteq> None" using * avg_marks_Some by fastforce
next
  fix a assume "Metric_avg_attendance a \<in> set (rendered (run df w))"
  then have *: "filtered_df df w \<noteq> []" "a = avg_attendance (filtered_df df w)"
    using rendered_attendance by blast+
  show "filtered_df df w \<noteq> []" by (rule *)
  show "a \<noteq> None" using * avg_attendance_Some by fastforce
next
  show e: "filtered_df df (w\<lparr>course_filter := ''All'', city_filter := [], min_marks := 0,
          gender_filter := ''All''\<rparr>) = []"
    by (simp add: filtered_df_def)
  show "run df (w\<lparr>course_filter := ''All'', city_filter := [], min_marks := 0,
          gender_filter := ''All''\<rparr>) = Stopped [Warning_no_data]"
    using e by (rule run_empty)
qed

text \<open>
  The witness takes the built-in table twice: with no city selected, where the run
  stops, and with the course Math and the city New York, where the averages 79 and 78.5
  are shown.
\<close>

theorem empty_filter_stops_witness:
  "filtered_df data \<lparr>course_filter = ''All'', city_filter = [], min_marks = 0,
      gender_filter = ''All'', search_name = [], top_button = False, all_button = False\<rparr> = []
   \<and> run data \<lparr>course_filter = ''All'', city_filter = [], min_marks = 0,
      gender_filter = ''All'', search_name = [], top_button = False, all_button = False\<rparr>
     = Stopped [Warning_no_data]
   \<and> Metric_avg_marks (Some 79) \<in> set (rendered (run data
       \<lparr>course_filter = ''Math'', city_filter = [''New York''], min_marks = 0,
          gender_filter = ''All'', search_name = [], top_button = False, all_button = False\<rparr>))
   \<and> Metric_avg_attendance (Some (157 / 2)) \<in> set (rendered (run data
       \<lparr>course_filter = ''Math'', city_filter = [''New York''], min_marks = 0,
          gender_filter = ''All'', search_name = [], top_button = False, all_button = False\<rparr>))
   \<and> filtered_df data \<lparr>course_filter = ''Math'', city_filter = [''New York''], min_marks = 0,
      gender_filter = ''All'', search_name = [], top_button = False, all_button = False\<rparr> \<noteq> []"
proof -
  let ?w0 = "\<lparr>course_filter = ''All'', city_filter = [], min_marks = 0,
      gender_filter = ''All'', search_name = [], top_button = False, all_button = False\<rparr>"
  let ?wa = "\<lparr>course_filter = ''Math'', city_filter = [''New York''], min_marks = 0,
      gender_filter = ''All'', search_name = [], top_button = False, all_button = False\<rparr>"
  have e: "filtered_df data ?w0 = []"
    by (simp add: filtered_df_def)
  have "map (\<lambda>r. (Name r, Marks r)) (filtered_df data ?wa) \<noteq> []"
    unfolding rows_a by simp
  then have n: "filtered_df data ?wa \<noteq> []"
    by auto
  have m: "Metric_avg_marks (Some 79) \<in> set (rendered (run data ?wa))"
    using rendered_kpis[OF n] unfolding avg_a .
  have t: "Metric_avg_attendance (Some (157 / 2)) \<in> set (rendered (run data ?wa))"
    using rendered_kpis_attendance[OF n] unfolding avg_attendance_a .
  from empty_filter_stops[of data ?w0] e
  have "run data ?w0 = Stopped [Warning_no_data]" by blast
  moreover from empty_filter_stops[of data ?wa] m t
  have "filtered_df data ?wa \<noteq> []" by blast
  ultimately show ?thesis using e m t by blast
qed

text \<open>
  C9. When the filter chain leaves no row, the run ends at line 61, before the quick
  actions: whatever the search box holds and whichever button was pressed, the run
  renders the no-data warning and nothing else, so no search result, no top-performers
  view and no full table.
\<close>

theorem empty_filter_halts:
  assumes "filtered_df df w = []"
  shows "run df (w\<lparr>search_name := q, top_button := t, all_button := a\<rparr>)
           = Stopped [Warning_no_data]
         \<and> filter quick_action
              (rendered (run df (w\<lparr>search_name := q, top_button := t, all_button := a\<rparr>))) = []"
proof -
  have "filtered_df df (w\<lparr>search_name := q, top_button := t, all_button := a\<rparr>) = []"
    using assms by (simp only: filtered_df_more)
  then have "run df (w\<lparr>search_name := q, top_button := t, all_button := a\<rparr>)
      = Stopped [Warning_no_data]"
    by (rule run_empty)
  then show ?thesis by simp
qed

text \<open>
  The witness: on the built-in table with no city selected, a search for \<open>an\<close> with
  both buttons pressed renders only the warning.
\<close>

theorem empty_filter_halts_witness:
  "filtered_df data \<lparr>course_filter = ''All'', city_filter = [], min_marks = 0,
      gender_filter = ''All'', search_name = [], top_button = False, all_button = False\<rparr> = []
   \<and> run data \<lparr>course_filter = ''All'', city_filter = [], min_marks = 0,
      gender_filter = ''All'', search_name = ''an'', top_button = True, all_button = True\<rparr>
     = Stopped [Warning_no_data]"
proof -
  let ?w0 = "\<lparr>course_filter = ''All'', city_filter = [], min_marks = 0,
      gender_filter = ''All'', search_name = [], top_button = False, all_button = False\<rparr>"
  have e: "filtered_df data ?w0 = []"
    by (simp add: filtered_df_def)
  from empty_filter_halts[OF e, where q = "''an''" and t = True and a = True] e
  show ?thesis by simp
qed

section \<open>The quick actions\<close>

subsection \<open>Top performers\<close>

lemma sort_values_desc_mset: "mset (sort_values_desc key xs) = mset xs"
  by (simp add: sort_values_desc_def)

lemma sort_values_desc_sorted:
  "sorted_wrt (\<lambda>a b. key b \<le> key a) (sort_values_desc key xs)"
proof -
  have "sorted (map key (sort_key key (rev xs)))"
    by (rule sorted_sort_key)
  then have "sorted_wrt (\<lambda>a b. key a \<le> key b) (sort_key key (rev xs))"
    by (simp add: sorted_wrt_map)
  then show ?thesis
    by (simp add: sort_values_desc_def sorted_wrt_rev)
qed

text \<open>
  C7. The top-performers table holds exactly the rows of the whole table whose marks
  are above 90, each as often as it occurs there, ordered by marks from the largest
  down; no row with marks 90 is in it. It is computed from the whole table: a run that
  reaches the button with the button pressed shows this table whatever the filter
  widgets hold.
\<close>

theorem top_students_strict:
  "mset (top_students df) = mset (filter (\<lambda>r. 90 < Marks r) df)
   \<and> sorted_wrt (\<lambda>a b. Marks b \<le> Marks a) (top_students df)
   \<and> (\<forall>r \<in> set (top_students df). Marks r \<noteq> 90)
   \<and> (\<forall>w es. run df w = Completed es \<and> top_button w
         \<longrightarrow> Dataframe_top (top_students df) \<in> set es)"
proof (intro conjI)
  show m: "mset (top_students df) = mset (filter (\<lambda>r. 90 < Marks r) df)"
    by (simp add: top_students_def sort_values_desc_mset)
  show "sorted_wrt (\<lambda>a b. Marks b \<le> Marks a) (top_students df)"
    unfolding top_students_def by (rule sort_values_desc_sorted)
  have "set (top_students df) = set (filter (\<lambda>r. 90 < Marks r) df)"
    using m by (rule mset_eq_setD)
  then show "\<forall>r \<in> set (top_students df). Marks r \<noteq> 90"
    by auto
  show "\<forall>w es. run df w = Completed es \<and> top_button w
         \<longrightarrow> Dataframe_top (top_students df) \<in> set es"
    using run_completed_top by blast
qed

text \<open>
  The witness: on the built-in table the top performers are Hannah, Alice and David,
  and a run filtered to Math in New York with the button pressed shows them.
\<close>

theorem top_students_strict_witness:
  "map Name (top_students data) = [''Hannah'', ''Alice'', ''David'']
   \<and> list_all (\<lambda>r. Marks r \<noteq> 90) (top_students data)
   \<and> sorted_wrt (\<lambda>a b. Marks b \<le> Marks a) (top_students data)
   \<and> Dataframe_top (top_students data) \<in> set (rendered (run data
       \<lparr>course_filter = ''Math'', city_filter = [''New York''], min_marks = 0,
          gender_filter = ''All'', search_name = [], top_button = True, all_button = False\<rparr>))"
proof -
  let ?w = "\<lparr>course_filter = ''Math'', city_filter = [''New York''], min_marks = 0,
      gender_filter = ''All'', search_name = [], top_button = True, all_button = False\<rparr>"
  have "map (\<lambda>r. (Name r, Marks r)) (filtered_df data ?w) \<noteq> []"
    unfolding rows_a by simp
  then have "filtered_df data ?w \<noteq> []"
    by auto
  then obtain es where c: "run data ?w = Completed es"
    by (auto simp: run_def Let_def search_block_def)
  have names: "map Name (top_students data) = [''Hannah'', ''Alice'', ''David'']"
    by (simp add: top_students_def sort_values_desc_def data_def)
  from top_students_strict[of data]
  have s: "sorted_wrt (\<lambda>a b. Marks b \<le> Marks a) (top_students data)"
    and b: "\<forall>r \<in> set (top_students data). Marks r \<noteq> 90"
    and t: "\<forall>w es. run data w = Completed es \<and> top_button w
         \<longrightarrow> Dataframe_top (top_students data) \<in> set es"
    by blast+
  have "run data ?w = Completed es \<and> top_button ?w"
    using c by simp
  with t have "Dataframe_top (top_students data) \<in> set es"
    by blast
  then have "Dataframe_top (top_students data) \<in> set (rendered (run data ?w))"
    unfolding c by simp
  moreover from b have "list_all (\<lambda>r. Marks r \<noteq> 90) (top_students data)"
    by (simp add: list_all_iff)
  ultimately show ?thesis using names s by blast
qed

subsection \<open>Search by name\<close>

text \<open>
  Where the text of the search box holds no special character, the script's search and
  the spec's case-insensitive substring match select the same rows.
\<close>

lemma re_compile_literal:
  "set q \<inter> set special = {} \<Longrightarrow> re_compile q = Some (map Lit q)"
proof (induction q)
  case Nil
  then show ?case by simp
next
  case (Cons c cs)
  then have "c \<notin> set special" and "set cs \<inter> set special = {}"
    by auto
  moreover from \<open>c \<notin> set special\<close> have "c \<noteq> CHR ''.''"
    by (auto simp: special_def)
  ultimately show ?case using Cons.IH by simp
qed

lemma match_here_literal:
  "match_here (map Lit q) s \<longleftrightarrow> prefix (map to_lower q) (map to_lower s)"
proof (induction q arbitrary: s)
  case Nil
  then show ?case by simp
next
  case (Cons c cs)
  then show ?case by (cases s) auto
qed

lemma re_search_literal:
  "re_search (map Lit q) s \<longleftrightarrow> sublist (map to_lower q) (map to_lower s)"
proof (induction s)
  case Nil
  then show ?case by (cases q) auto
next
  case (Cons d ds)
  have "re_search (map Lit q) (d # ds) \<longleftrightarrow>
      match_here (map Lit q) (d # ds) \<or> re_search (map Lit q) ds"
    by simp
  also have "\<dots> \<longleftrightarrow> prefix (map to_lower q) (map to_lower (d # ds))
      \<or> sublist (map to_lower q) (map to_lower ds)"
    by (simp only: match_here_literal Cons.IH)
  also have "\<dots> \<longleftrightarrow> sublist (map to_lower q) (map to_lower (d # ds))"
    by (simp add: sublist_Cons_right)
  finally show ?case .
qed

lemma search_result_literal:
  assumes "set q \<inter> set special = {}" and "q \<noteq> []"
  shows "search_result df q = Some (search_by_name_spec df q)"
  using assms
  by (simp add: search_result_def search_by_name_spec_def re_compile_literal re_search_literal)

lemma search_block_empty_query: "search_block df [] = Some []"
  by (simp add: search_block_def)

lemma search_an:
  "map_option (map Name) (search_result data ''an'') = Some [''Hannah'', ''Ian'']"
  by (simp add: search_result_def data_def special_def to_lower_def)

text \<open>
  C6 does not hold of the script for every query. The dot is a query the search box
  accepts; the script reads it as a regular expression that matches any character, so
  every row of the built-in table is found and shown, while no name of the table has a
  dot in it and the substring match of the spec finds nothing.
\<close>

theorem search_dot_matches_all:
  "search_result data ''.'' = Some data
   \<and> search_block data ''.'' = Some [Table_result data]
   \<and> search_by_name_spec data ''.'' = []"
proof (intro conjI)
  show r: "search_result data ''.'' = Some data"
    by (simp add: search_result_def data_def)
  show "search_block data ''.'' = Some [Table_result data]"
    unfolding search_block_def r by (simp add: data_def)
  show "search_by_name_spec data ''.'' = []"
    by (simp add: search_by_name_spec_def data_def to_lower_def sublist_Cons_right)
qed

end
